theory Spec2Isabelle
  imports Complex_Main "HOL-Library.Word"
begin

section \<open>Host-language values\<close>

text \<open>
  The program is JavaScript. Its numbers are modelled as exact rationals together with
  the not-a-number value: every numeric input comes from the tag decoder as an integer,
  the only operations applied are \<open>+\<close>, \<open>*\<close> and division or remainder by a non-zero
  literal, so every finite value is a rational. The rounding of IEEE doubles is not
  part of the model. Strings are lists of characters, byte buffers are lists of bytes.
\<close>

datatype number = Num rat | NaN

type_synonym bytes = "8 word list"

text \<open>\<open>x / d\<close> and \<open>x % d\<close> for a non-zero literal \<open>d\<close>. The remainder takes the sign of
  the dividend (the quotient is truncated towards zero).\<close>

fun divide_by :: "number \<Rightarrow> rat \<Rightarrow> number" where
  "divide_by (Num x) d = Num (x / d)"
| "divide_by NaN d = NaN"

definition trunc :: "rat \<Rightarrow> int" where
  "trunc x = (if 0 \<le> x then \<lfloor>x\<rfloor> else \<lceil>x\<rceil>)"

fun remainder :: "number \<Rightarrow> rat \<Rightarrow> number" where
  "remainder (Num x) d = Num (x - d * of_int (trunc (x / d)))"
| "remainder NaN d = NaN"

fun plus_number :: "number \<Rightarrow> number \<Rightarrow> number" where
  "plus_number (Num x) (Num y) = Num (x + y)"
| "plus_number _ _ = NaN"

text \<open>\<open>Math.floor\<close>: the result is an integer, or \<open>None\<close> for NaN.\<close>

fun Math_floor :: "number \<Rightarrow> int option" where
  "Math_floor (Num x) = Some \<lfloor>x\<rfloor>"
| "Math_floor NaN = None"

text \<open>\<open>n < k\<close>: every comparison with NaN is false.\<close>

fun less_than :: "int option \<Rightarrow> int \<Rightarrow> bool" where
  "less_than (Some n) k = (n < k)"
| "less_than None k = False"

text \<open>Conversion of an integral number to a string, as string concatenation performs it:
  decimal digits, a leading minus sign for negative values, \<open>NaN\<close> for not-a-number.
  (Engines switch to exponent notation from \<open>10^21\<close> on; such magnitudes are rendered
  in plain decimal here.)\<close>

fun digits :: "nat \<Rightarrow> string" where
  "digits n = (if n < 10 then [''0123456789'' ! n]
               else digits (n div 10) @ [''0123456789'' ! (n mod 10)])"

declare digits.simps [simp del]

fun ToString :: "int option \<Rightarrow> string" where
  "ToString (Some n) = (if n < 0 then CHR ''-'' # digits (nat (- n)) else digits (nat n))"
| "ToString None = ''NaN''"

section \<open>Timestamp rendering\<close>

text \<open>\<open>toTimeString (ms, ass, comma)\<close>, lines 13 to 31 of the parser source.\<close>

definition toTimeString :: "number \<Rightarrow> bool \<Rightarrow> bool \<Rightarrow> string" where
  "toTimeString ms ass comma =
    (let hh = Math_floor (divide_by (divide_by ms 1000) 3600);
         mm = Math_floor (remainder (divide_by (divide_by ms 1000) 60) 60);
         ss = Math_floor (remainder (divide_by ms 1000) 60);
         ff = Math_floor (if ass then divide_by (remainder ms 1000) 10 else remainder ms 1000)
     in (if ass then ToString hh else (if less_than hh 10 then ''0'' else ''''))
        @ '':''
        @ (if less_than mm 10 then ''0'' else '''')
        @ ToString mm
        @ '':''
        @ (if less_than ss 10 then ''0'' else '''')
        @ ToString ss
        @ (if comma then '','' else ''.'')
        @ (if ass then '''' else (if less_than ff 100 then ''0'' else ''''))
        @ (if less_than ff 10 then ''0'' else '''')
        @ ToString ff)"

section \<open>String operations\<close>

text \<open>\<open>s.split(c)\<close> for a one-character separator: the result is never empty, and the empty
  string splits into one empty field.\<close>

fun split :: "string \<Rightarrow> char \<Rightarrow> string list" where
  "split [] c = [ [] ]"
| "split (x # xs) c =
     (if x = c then [] # split xs c
      else (case split xs c of [] \<Rightarrow> [ [x] ] | f # fs \<Rightarrow> (x # f) # fs))"

text \<open>\<open>fields.join(sep)\<close> on an array of strings.\<close>

fun join :: "string list \<Rightarrow> string \<Rightarrow> string" where
  "join [] sep = []"
| "join [f] sep = f"
| "join (f # g # fs) sep = f @ sep @ join (g # fs) sep"

text \<open>\<open>xs[i]\<close>: \<open>None\<close> stands for \<open>undefined\<close>, the value of a read past the end.\<close>

definition elem_at :: "'a list \<Rightarrow> nat \<Rightarrow> 'a option" where
  "elem_at xs i = (if i < length xs then Some (xs ! i) else None)"

text \<open>\<open>xs.slice(n)\<close>.\<close>

definition slice :: "'a list \<Rightarrow> nat \<Rightarrow> 'a list" where
  "slice xs n = drop n xs"

text \<open>String concatenation with a value that may be \<open>undefined\<close>.\<close>

fun concat_value :: "string option \<Rightarrow> string" where
  "concat_value (Some s) = s"
| "concat_value None = ''undefined''"

definition startsWith :: "string \<Rightarrow> string \<Rightarrow> bool" where
  "startsWith s pre = (take (length pre) s = pre)"

definition substring :: "string \<Rightarrow> nat \<Rightarrow> string" where
  "substring s n = drop n s"

text \<open>\<open>toLowerCase\<close> on the characters an EBML string element can hold (ASCII): the
  letters \<open>A\<close> to \<open>Z\<close> move to \<open>a\<close> to \<open>z\<close>, every other character stays.\<close>

definition lower_char :: "char \<Rightarrow> char" where
  "lower_char c = (let n = (of_char c :: nat)
                   in if 65 \<le> n \<and> n \<le> 90 then char_of (n + 32) else c)"

definition toLowerCase :: "string \<Rightarrow> string" where
  "toLowerCase s = map lower_char s"

section \<open>Elements delivered by the tag decoder\<close>

text \<open>
  The decoder gives every element the shape its identifier has in the container schema:
  a master element carries \<open>Children\<close>, an unsigned-integer element a number, a string
  element a string, a binary element a buffer, and a block its track number, its
  cluster-relative timecode and its payload. The identifiers are therefore grouped by
  that shape. \<open>Other\<close> stands for every element of another kind; no test of the
  program matches it.
\<close>

datatype master_id = Tracks | TrackEntry | ContentEncodings | ContentEncoding
  | ContentCompression | BlockGroup | AttachedFile | OtherMaster nat

datatype uint_id = TimecodeScale | Timecode | TrackType | TrackNumber | BlockDuration
  | OtherUInt nat

datatype string_id = CodecID | Language | Name | FileName | FileMimeType | OtherString nat

datatype binary_id = CodecPrivate | FileData | OtherBinary nat

datatype element =
    Master master_id "element list"
  | UInt uint_id nat
  | String string_id string
  | Binary binary_id bytes
  | Block nat int bytes
  | Other nat

text \<open>\<open>getData (chunk, id)\<close>, lines 8 to 11: the data of the first child with that
  identifier, \<open>None\<close> (\<open>undefined\<close>) when there is none. The argument is
  \<open>chunk.Children\<close>; there is one instance per shape of data.\<close>

definition getData_uint :: "element list \<Rightarrow> uint_id \<Rightarrow> nat option" where
  "getData_uint Children i =
     (case List.find (\<lambda>c. case c of UInt j _ \<Rightarrow> j = i | _ \<Rightarrow> False) Children of
        Some (UInt _ n) \<Rightarrow> Some n
      | _ \<Rightarrow> None)"

definition getData_string :: "element list \<Rightarrow> string_id \<Rightarrow> string option" where
  "getData_string Children i =
     (case List.find (\<lambda>c. case c of String j _ \<Rightarrow> j = i | _ \<Rightarrow> False) Children of
        Some (String _ s) \<Rightarrow> Some s
      | _ \<Rightarrow> None)"

definition getData_binary :: "element list \<Rightarrow> binary_id \<Rightarrow> bytes option" where
  "getData_binary Children i =
     (case List.find (\<lambda>c. case c of Binary j _ \<Rightarrow> j = i | _ \<Rightarrow> False) Children of
        Some (Binary _ b) \<Rightarrow> Some b
      | _ \<Rightarrow> None)"

section \<open>Track registry, cues and events\<close>

record track =
  number :: "nat option"
  language :: "string option"
  type :: string
  name :: "string option"
  header :: "string option"
  compressed :: bool

text \<open>The registry is a \<open>Map\<close> keyed by \<open>track.number\<close>, which is \<open>undefined\<close>
  (\<open>None\<close>) for an entry without a TrackNumber child. A \<open>Map\<close> keeps its keys in
  insertion order, and \<open>set\<close> on a present key replaces the value in place.\<close>

type_synonym ('k, 'v) js_map = "('k \<times> 'v) list"

fun Map_set :: "('k, 'v) js_map \<Rightarrow> 'k \<Rightarrow> 'v \<Rightarrow> ('k, 'v) js_map" where
  "Map_set [] k v = [(k, v)]"
| "Map_set ((k', v') # m) k v = (if k' = k then (k, v) # m else (k', v') # Map_set m k v)"

definition Map_get :: "('k, 'v) js_map \<Rightarrow> 'k \<Rightarrow> 'v option" where
  "Map_get m k = map_of m k"

definition Map_has :: "('k, 'v) js_map \<Rightarrow> 'k \<Rightarrow> bool" where
  "Map_has m k = (map_of m k \<noteq> None)"

definition Map_values :: "('k, 'v) js_map \<Rightarrow> 'v list" where
  "Map_values m = map snd m"

definition Map_size :: "('k, 'v) js_map \<Rightarrow> nat" where
  "Map_size m = length m"

text \<open>A cue. The properties assigned by name from \<open>SSA_KEYS\<close> are kept in \<open>props\<close>;
  a property can hold \<open>undefined\<close> (\<open>Some None\<close>) or be absent (\<open>None\<close> on lookup).
  None of the names assigned there is one of the four fixed properties.\<close>

record cue =
  text' :: string
  time :: number
  duration :: number
  content :: string
  props :: "(string, string option) js_map"

record attachment =
  filename :: "string option"
  mimetype :: "string option"
  data :: "bytes option"

datatype event =
    TracksEvent "track list"
  | SubtitleEvent cue nat
  | FileEvent attachment

datatype error = DecompressionError | DecodeError | WriteAfterEnd

section \<open>The element handler\<close>

definition SSA_TYPES :: "string list" where
  "SSA_TYPES = [''ssa'', ''ass'']"

definition SSA_KEYS :: "string list" where
  "SSA_KEYS = [''readOrder'', ''layer'', ''style'', ''name'', ''marginL'', ''marginR'',
               ''marginV'', ''effect'', ''text'']"

text \<open>The state of a \<open>SubtitleParserBase\<close>: the registry, the timecode scale and the
  timecode of the current cluster (\<open>None\<close> is \<open>null\<close>), and the events emitted so far,
  oldest first. The scale is \<open>1\<close> or a decoded integer divided by \<open>1000000\<close>, hence
  always a finite number.\<close>

record parser =
  subtitleTracks :: "(nat option, track) js_map"
  timecodeScale :: rat
  currentClusterTimecode :: "nat option"
  emitted :: "event list"

definition new_parser :: parser where
  "new_parser = \<lparr>subtitleTracks = [], timecodeScale = 1, currentClusterTimecode = None,
                  emitted = []\<rparr>"

text \<open>The test at lines 89 to 93: the entry has a ContentEncodings child with a
  ContentEncoding child with a ContentCompression child.\<close>

definition has_compression :: "element list \<Rightarrow> bool" where
  "has_compression Children =
     list_ex (\<lambda>c. case c of
         Master ContentEncodings cs \<Rightarrow>
           list_ex (\<lambda>cc. case cc of
               Master ContentEncoding ccs \<Rightarrow>
                 list_ex (\<lambda>ccc. case ccc of Master ContentCompression _ \<Rightarrow> True | _ \<Rightarrow> False) ccs
             | _ \<Rightarrow> False) cs
       | _ \<Rightarrow> False) Children"

text \<open>The body of the loop over the TrackEntry children, lines 67 to 100. \<open>toString\<close> is
  the decoding of a buffer as UTF-8 text, a primitive of the platform.\<close>

definition register_entry ::
  "(bytes \<Rightarrow> string) \<Rightarrow> element list \<Rightarrow> (nat option, track) js_map \<Rightarrow> (nat option, track) js_map"
where
  "register_entry toString entry tracks =
     (if getData_uint entry TrackType \<noteq> Some 0x11 then tracks
      else
        let codecID = (case getData_string entry CodecID of
                         None \<Rightarrow> [] | Some s \<Rightarrow> if s = [] then [] else s)
        in if startsWith codecID ''S_TEXT'' then
             let nm = getData_string entry Name;
                 trk = \<lparr>number = getData_uint entry TrackNumber,
                        language = getData_string entry Language,
                        type = toLowerCase (substring codecID 7),
                        name = (if nm = None \<or> nm = Some [] then None else nm),
                        header = map_option toString (getData_binary entry CodecPrivate),
                        compressed = has_compression entry\<rparr>
             in Map_set tracks (number trk) trk
           else tracks)"

text \<open>The children of a Tracks element that are TrackEntry elements, in order.\<close>

fun track_entries :: "element list \<Rightarrow> element list list" where
  "track_entries [] = []"
| "track_entries (Master TrackEntry cs # rest) = cs # track_entries rest"
| "track_entries (_ # rest) = track_entries rest"

text \<open>The loop at lines 129 to 131: \<open>subtitle[SSA_KEYS[i] ] = values[i]\<close> for
  \<open>i\<close> up to 7.\<close>

function assign_keys ::
  "nat \<Rightarrow> string list \<Rightarrow> (string, string option) js_map \<Rightarrow> (string, string option) js_map"
where
  "assign_keys i vals subtitle =
     (if i < 8 then assign_keys (Suc i) vals (Map_set subtitle (SSA_KEYS ! i) (elem_at vals i))
      else subtitle)"
  by pat_completeness auto
termination
  by (relation "measure (\<lambda>(i, vals, subtitle). 8 - i)") auto

declare assign_keys.simps [simp del]

text \<open>Lines 117 to 143: the cue of a block on a track of type \<open>ty\<close>, from the decoded
  payload text and the two computed times.\<close>

definition make_subtitle :: "string \<Rightarrow> string \<Rightarrow> number \<Rightarrow> number \<Rightarrow> cue" where
  "make_subtitle ty txt tm dur =
     (if ty \<in> set SSA_TYPES then
        let vals = split txt CHR '','';
            fields = split txt CHR '',''
        in \<lparr>text' = join (slice vals 8) '','',
            time = tm,
            duration = dur,
            content = ''Dialogue: ''
              @ (if ty = ''ssa'' then ''Marked=0'' else concat_value (elem_at fields 1))
              @ '','' @ toTimeString tm True False
              @ '','' @ toTimeString (plus_number tm dur) True False
              @ '','' @ join (slice fields 2) '','',
            props = assign_keys (if ty = ''ssa'' then 2 else 1) vals []\<rparr>
      else if ty = ''utf8'' then
        \<lparr>text' = txt, time = tm, duration = dur,
         content = toTimeString tm False True @ '' --> ''
           @ toTimeString (plus_number tm dur) False True
           @ [CHR 0x0D, CHR 0x0A] @ txt @ [CHR 0x0D, CHR 0x0A],
         props = []\<rparr>
      else if ty = ''webvtt'' then
        \<lparr>text' = txt, time = tm, duration = dur,
         content = toTimeString tm False False @ '' --> ''
           @ toTimeString (plus_number tm dur) False False
           @ [CHR 0x0D, CHR 0x0A] @ txt @ [CHR 0x0D, CHR 0x0A],
         props = []\<rparr>
      else
        \<lparr>text' = txt, time = tm, duration = dur, content = txt, props = []\<rparr>)"

text \<open>\<open>(block.value + this._currentClusterTimecode) * this.timecodeScale\<close>; a \<open>null\<close>
  cluster timecode counts as \<open>0\<close> in the sum.\<close>

definition block_time :: "int \<Rightarrow> nat option \<Rightarrow> rat \<Rightarrow> number" where
  "block_time v cluster scale =
     Num ((of_int v + (case cluster of None \<Rightarrow> 0 | Some c \<Rightarrow> of_nat c)) * scale)"

text \<open>\<open>blockDuration * this.timecodeScale\<close>; \<open>undefined\<close> times a number is NaN.\<close>

definition block_duration :: "nat option \<Rightarrow> rat \<Rightarrow> number" where
  "block_duration blockDuration scale =
     (case blockDuration of None \<Rightarrow> NaN | Some d \<Rightarrow> Num (of_nat d * scale))"

text \<open>\<open>chunk.Children.find(c => c.id === EbmlTagId.Block)\<close>.\<close>

definition find_block :: "element list \<Rightarrow> element option" where
  "find_block Children = List.find (\<lambda>c. case c of Block _ _ _ \<Rightarrow> True | _ \<Rightarrow> False) Children"

text \<open>
  \<open>parseEbmlSubtitles (chunk)\<close>, lines 54 to 157. The tests on \<open>chunk.id\<close> exclude one
  another, so the sequence of \<open>if\<close> statements is one case distinction. \<open>inflateSync\<close>
  is the decompression primitive, \<open>None\<close> when it throws; that is the only exception
  the handler can raise, and it is raised before anything is emitted or stored.
  \<open>has\<close> and \<open>get\<close> are the two calls of the source; \<open>get\<close> cannot miss where
  \<open>has\<close> held, so the branch for a miss is never taken.
\<close>

fun parseEbmlSubtitles ::
  "(bytes \<Rightarrow> bytes option) \<Rightarrow> (bytes \<Rightarrow> string) \<Rightarrow> parser \<Rightarrow> element \<Rightarrow> error + parser"
where
  "parseEbmlSubtitles inflateSync toString p (UInt TimecodeScale n) =
     Inr (p\<lparr>timecodeScale := of_nat n / 1000000\<rparr>)"
| "parseEbmlSubtitles inflateSync toString p (UInt Timecode n) =
     Inr (p\<lparr>currentClusterTimecode := Some n\<rparr>)"
| "parseEbmlSubtitles inflateSync toString p (Master Tracks Children) =
     (let tracks = fold (register_entry toString) (track_entries Children) (subtitleTracks p)
      in Inr (p\<lparr>subtitleTracks := tracks,
                emitted := emitted p @ [TracksEvent (Map_values tracks)]\<rparr>))"
| "parseEbmlSubtitles inflateSync toString p (Master BlockGroup Children) =
     (case find_block Children of
        Some (Block trackno v payload) \<Rightarrow>
          if Map_has (subtitleTracks p) (Some trackno) then
            let blockDuration = getData_uint Children BlockDuration
            in (case Map_get (subtitleTracks p) (Some trackno) of
                  None \<Rightarrow> Inr p
                | Some trk \<Rightarrow>
                   (case (if compressed trk then inflateSync payload else Some payload) of
                      None \<Rightarrow> Inl DecompressionError
                    | Some raw \<Rightarrow>
                        let subtitle = make_subtitle (type trk) (toString raw)
                              (block_time v (currentClusterTimecode p) (timecodeScale p))
                              (block_duration blockDuration (timecodeScale p))
                        in Inr (p\<lparr>emitted := emitted p @ [SubtitleEvent subtitle trackno]\<rparr>)))
          else Inr p
      | _ \<Rightarrow> Inr p)"
| "parseEbmlSubtitles inflateSync toString p (Master AttachedFile Children) =
     Inr (p\<lparr>emitted := emitted p @
            [FileEvent \<lparr>filename = getData_string Children FileName,
                        mimetype = getData_string Children FileMimeType,
                        data = getData_binary Children FileData\<rparr>]\<rparr>)"
| "parseEbmlSubtitles inflateSync toString p _ = Inr p"

section \<open>The two stream classes\<close>

text \<open>
  An instance of \<open>SubtitleParser\<close> or \<open>SubtitleStream\<close>: the state of its base class and
  of its tag decoder, the \<open>unstable\<close> flag (never assigned in a \<open>SubtitleParser\<close>;
  an unassigned flag tests as false), whether \<open>end ()\<close> has been called on it, whether it
  ends itself on its next \<open>drain\<close> event, the chunks handed to \<open>decoder.write\<close> so far
  (oldest first) and the number of warnings printed.

  The tag decoder is a collaborator outside the program. It is a parameter \<open>decode\<close>:
  from its state and a chunk it yields the elements it emits for the chunk, in order,
  whether it throws after emitting them, and its next state. Each element is handed to
  the listeners of the decoder's \<open>data\<close> event, in the order of their registration,
  before the next element is; an exception of a listener leaves \<open>decoder.write\<close> at once.
\<close>

record 'd stream =
  base :: parser
  decoder :: 'd
  unstable :: bool
  ended :: bool
  endOnDrain :: bool
  written :: "bytes list"
  warnings :: nat

type_synonym 'd ebml_decoder = "'d \<Rightarrow> bytes \<Rightarrow> element list \<times> error option \<times> 'd"

type_synonym 'd listener = "'d stream \<Rightarrow> element \<Rightarrow> 'd stream \<times> error option"

text \<open>The constructor of \<open>SubtitleParserBase\<close>, lines 34 to 52, with the state of a new
  decoder.\<close>

definition new_instance :: "'d \<Rightarrow> 'd stream" where
  "new_instance d = \<lparr>base = new_parser, decoder = d, unstable = False, ended = False,
                      endOnDrain = False, written = [], warnings = 0\<rparr>"

text \<open>The listener registered by the base class: \<open>parseEbmlSubtitles\<close> bound to the
  instance.\<close>

definition base_listener ::
  "(bytes \<Rightarrow> bytes option) \<Rightarrow> (bytes \<Rightarrow> string) \<Rightarrow> 'd listener" where
  "base_listener inflateSync toString s chunk =
     (case parseEbmlSubtitles inflateSync toString (base s) chunk of
        Inl err \<Rightarrow> (s, Some err)
      | Inr b \<Rightarrow> (s\<lparr>base := b\<rparr>, None))"

fun emit :: "'d listener list \<Rightarrow> 'd stream \<Rightarrow> element \<Rightarrow> 'd stream \<times> error option" where
  "emit [] s chunk = (s, None)"
| "emit (l # ls) s chunk =
     (case l s chunk of
        (s', Some err) \<Rightarrow> (s', Some err)
      | (s', None) \<Rightarrow> emit ls s' chunk)"

fun deliver ::
  "'d listener list \<Rightarrow> 'd stream \<Rightarrow> element list \<Rightarrow> 'd stream \<times> error option" where
  "deliver ls s [] = (s, None)"
| "deliver ls s (chunk # rest) =
     (case emit ls s chunk of
        (s', Some err) \<Rightarrow> (s', Some err)
      | (s', None) \<Rightarrow> deliver ls s' rest)"

text \<open>\<open>this.decoder.write (chunk)\<close>.\<close>

definition decoder_write ::
  "'d listener list \<Rightarrow> 'd ebml_decoder \<Rightarrow> 'd stream \<Rightarrow> bytes \<Rightarrow> 'd stream \<times> error option"
where
  "decoder_write ls decode s chunk =
     (case decode (decoder s) chunk of
        (elements, thrown, d) \<Rightarrow>
          (case deliver ls (s\<lparr>decoder := d, written := written s @ [chunk]\<rparr>) elements of
             (s', Some err) \<Rightarrow> (s', Some err)
           | (s', None) \<Rightarrow> (s', thrown)))"

subsection \<open>SubtitleParser\<close>

text \<open>The second listener, registered by the constructor of \<open>SubtitleParser\<close>
  (lines 117 to 122 of the bundle): after a Tracks element, end the stream if the
  registry is empty.\<close>

definition stop_listener :: "'d listener" where
  "stop_listener s chunk =
     (case chunk of
        Master Tracks _ \<Rightarrow>
          if Map_size (subtitleTracks (base s)) = 0 then (s\<lparr>ended := True\<rparr>, None)
          else (s, None)
      | _ \<Rightarrow> (s, None))"

definition SubtitleParser_listeners ::
  "(bytes \<Rightarrow> bytes option) \<Rightarrow> (bytes \<Rightarrow> string) \<Rightarrow> 'd listener list" where
  "SubtitleParser_listeners inflateSync toString =
     [base_listener inflateSync toString, stop_listener]"

text \<open>\<open>_write (chunk, _, callback)\<close>, lines 125 to 128 of the bundle.\<close>

definition SubtitleParser_write ::
  "(bytes \<Rightarrow> bytes option) \<Rightarrow> (bytes \<Rightarrow> string) \<Rightarrow> 'd ebml_decoder \<Rightarrow> 'd stream \<Rightarrow> bytes
     \<Rightarrow> 'd stream \<times> error option"
where
  "SubtitleParser_write inflateSync toString decode s chunk =
     decoder_write (SubtitleParser_listeners inflateSync toString) decode s chunk"

text \<open>\<open>write (chunk)\<close> of the writable stream the parser extends: once \<open>end ()\<close> has
  been called, a chunk is refused with a write-after-end error and \<open>_write\<close> is not
  called for it.\<close>

definition Writable_write ::
  "(bytes \<Rightarrow> bytes option) \<Rightarrow> (bytes \<Rightarrow> string) \<Rightarrow> 'd ebml_decoder \<Rightarrow> 'd stream \<Rightarrow> bytes
     \<Rightarrow> 'd stream \<times> error option"
where
  "Writable_write inflateSync toString decode s chunk =
     (if ended s then (s, Some WriteAfterEnd)
      else SubtitleParser_write inflateSync toString decode s chunk)"

text \<open>A sequence of writes; an error of one write does not stop the source from writing
  the next chunk.\<close>

fun write_all ::
  "(bytes \<Rightarrow> bytes option) \<Rightarrow> (bytes \<Rightarrow> string) \<Rightarrow> 'd ebml_decoder \<Rightarrow> 'd stream \<Rightarrow> bytes list
     \<Rightarrow> 'd stream"
where
  "write_all inflateSync toString decode s [] = s"
| "write_all inflateSync toString decode s (chunk # chunks) =
     write_all inflateSync toString decode (fst (Writable_write inflateSync toString decode s chunk)) chunks"

subsection \<open>SubtitleStream\<close>

text \<open>The constructor, lines 133 to 146 of the bundle. The argument is \<open>Some\<close> of the
  prior instance when \<open>prevInstance instanceof SubtitleParserBase\<close> holds; the result is
  the new instance and the prior one, which now ends itself when it drains. The registry
  of the prior instance is taken over as it is at that moment.\<close>

definition SubtitleStream ::
  "'d \<Rightarrow> 'd stream option \<Rightarrow> 'd stream \<times> 'd stream option" where
  "SubtitleStream d prevInstance =
     (case prevInstance of
        Some prev \<Rightarrow>
          ((new_instance d)
             \<lparr>base := new_parser\<lparr>subtitleTracks := subtitleTracks (base prev),
                                  timecodeScale := timecodeScale (base prev)\<rparr>,
              unstable := True\<rparr>,
           Some (prev\<lparr>endOnDrain := True\<rparr>))
      | None \<Rightarrow> (new_instance d, None))"

text \<open>\<open>decoderWrite (chunk)\<close>, lines 170 to 177: the exception of \<open>decoder.write\<close> is
  caught and a warning is printed.\<close>

definition decoderWrite ::
  "(bytes \<Rightarrow> bytes option) \<Rightarrow> (bytes \<Rightarrow> string) \<Rightarrow> 'd ebml_decoder \<Rightarrow> 'd stream \<Rightarrow> bytes
     \<Rightarrow> 'd stream"
where
  "decoderWrite inflateSync toString decode s chunk =
     (case decoder_write [base_listener inflateSync toString] decode s chunk of
        (s', Some err) \<Rightarrow> s'\<lparr>warnings := Suc (warnings s')\<rparr>
      | (s', None) \<Rightarrow> s')"

text \<open>\<open>Math.floor (Math.log2 (b))\<close> for a positive integer \<open>b\<close>: the position of its
  highest set bit.\<close>

fun floor_log2 :: "nat \<Rightarrow> nat" where
  "floor_log2 n = (if n < 2 then 0 else Suc (floor_log2 (n div 2)))"

declare floor_log2.simps [simp del]

text \<open>\<open>8 - Math.floor (Math.log2 (chunk[i + 4]))\<close>, as an index: \<open>None\<close> when it is
  not a finite number (the byte is \<open>0\<close>, or the read is past the end).\<close>

definition size_tag_length :: "8 word option \<Rightarrow> nat option" where
  "size_tag_length b =
     (case b of
        None \<Rightarrow> None
      | Some w \<Rightarrow> if w = 0 then None else Some (8 - floor_log2 (unat w)))"

text \<open>The test of one offset, lines 153 to 157.\<close>

definition cluster_at :: "bytes \<Rightarrow> nat \<Rightarrow> bool" where
  "cluster_at chunk i =
     (elem_at chunk i = Some 0x1f \<and> elem_at chunk (i + 1) = Some 0x43
      \<and> elem_at chunk (i + 2) = Some 0xb6 \<and> elem_at chunk (i + 3) = Some 0x75
      \<and> (case size_tag_length (elem_at chunk (i + 4)) of
            None \<Rightarrow> False
          | Some len \<Rightarrow> elem_at chunk (i + 4 + len) = Some 0xe7))"

text \<open>The loop at lines 151 to 164, from offset \<open>i\<close> on: the offset at which it breaks,
  \<open>None\<close> when it runs to its end.\<close>

function scan :: "bytes \<Rightarrow> nat \<Rightarrow> nat option" where
  "scan chunk i =
     (if int i < int (length chunk) - 12
      then (if cluster_at chunk i then Some i else scan chunk (Suc i))
      else None)"
  by pat_completeness auto
termination
  by (relation "measure (\<lambda>(chunk, i). length chunk - i)") auto

declare scan.simps [simp del]

text \<open>\<open>_ondata (chunk)\<close>, lines 148 to 168 of the bundle.\<close>

definition ondata ::
  "(bytes \<Rightarrow> bytes option) \<Rightarrow> (bytes \<Rightarrow> string) \<Rightarrow> 'd ebml_decoder \<Rightarrow> 'd stream \<Rightarrow> bytes
     \<Rightarrow> 'd stream"
where
  "ondata inflateSync toString decode s chunk =
     (if unstable s then
        (case scan chunk 0 of
           Some i \<Rightarrow> decoderWrite inflateSync toString decode (s\<lparr>unstable := False\<rparr>) (slice chunk i)
         | None \<Rightarrow> s)
      else decoderWrite inflateSync toString decode s chunk)"

text \<open>The chunks of the byte stream, each passed to \<open>_ondata\<close> in turn.\<close>

fun ondata_all ::
  "(bytes \<Rightarrow> bytes option) \<Rightarrow> (bytes \<Rightarrow> string) \<Rightarrow> 'd ebml_decoder \<Rightarrow> 'd stream \<Rightarrow> bytes list
     \<Rightarrow> 'd stream"
where
  "ondata_all inflateSync toString decode s [] = s"
| "ondata_all inflateSync toString decode s (chunk # chunks) =
     ondata_all inflateSync toString decode (ondata inflateSync toString decode s chunk) chunks"

section \<open>Concrete inputs\<close>

text \<open>A stand-in for the platform's UTF-8 decoding on buffers of ASCII bytes, where
  decoding maps every byte to the character with that code, and its inverse.\<close>

definition ascii :: "bytes \<Rightarrow> string" where
  "ascii b = map (\<lambda>w. char_of (unat w)) b"

definition bytes_of :: "string \<Rightarrow> bytes" where
  "bytes_of s = map (\<lambda>c. of_nat (of_char c)) s"

definition ass_track :: track where
  "ass_track = \<lparr>number = Some 4, language = Some ''jpn'', type = ''ass'', name = None,
                 header = None, compressed = False\<rparr>"

definition ass_parser :: parser where
  "ass_parser = \<lparr>subtitleTracks = [(Some 4, ass_track)], timecodeScale = 1,
                  currentClusterTimecode = Some 107000, emitted = []\<rparr>"

definition dialogue_payload :: bytes where
  "dialogue_payload = bytes_of ''0,1,Default,,0,0,0,,Hello, world''"

text \<open>Three decoders without state: one that finds no element in any chunk, one that
  throws on every chunk, and one that finds in a chunk a Tracks element without entries
  followed by an attached file.\<close>

definition no_elements :: "unit ebml_decoder" where
  "no_elements d chunk = ([], None, d)"

definition failing_decoder :: "unit ebml_decoder" where
  "failing_decoder d chunk = ([], Some DecodeError, d)"

definition tracks_then_file :: "unit ebml_decoder" where
  "tracks_then_file d chunk =
     ([Master Tracks [], Master AttachedFile [String FileName ''Arial.ttf''] ], None, d)"

text \<open>A chunk of sixteen bytes with the cluster signature at offset 4, a size tag of one
  byte and the Timecode identifier behind it.\<close>

definition late_cluster :: bytes where
  "late_cluster = [0x00, 0x00, 0x00, 0x00, 0x1f, 0x43, 0xb6, 0x75, 0x81, 0xe7, 0x81, 0x00,
                   0xa0, 0x81, 0x00, 0x00]"

text \<open>The same bytes with thirteen bytes behind the mark, and a chunk without the
  signature.\<close>

definition early_cluster :: bytes where
  "early_cluster = [0x00, 0x00, 0x1f, 0x43, 0xb6, 0x75, 0x81, 0xe7, 0x81, 0x00,
                    0xa0, 0x81, 0x00, 0x00, 0x00, 0x00, 0x00]"

definition no_cluster :: bytes where
  "no_cluster = [0x00, 0x01, 0x02, 0x03, 0x04, 0x05, 0x06, 0x07, 0x08, 0x09, 0x0a, 0x0b,
                 0x0c, 0x0d, 0x0e, 0x0f]"

text \<open>A seekable stream attached to a prior instance whose base state is \<open>ass_parser\<close>.\<close>

definition prior_stream :: "unit stream" where
  "prior_stream = (new_instance ())\<lparr>base := ass_parser\<rparr>"

definition resumed_stream :: "unit stream" where
  "resumed_stream = fst (SubtitleStream () (Some prior_stream))"

section \<open>Strings: splitting and joining\<close>



lemma join_Cons: "fs \<noteq> [] \<Longrightarrow> join (f # fs) sep = f @ sep @ join fs sep"
  by (cases fs) auto

lemma join_take_drop:
  "0 < n \<Longrightarrow> n < length fs \<Longrightarrow> join fs sep = join (take n fs) sep @ sep @ join (drop n fs) sep"
proof (induction n arbitrary: fs)
  case 0
  then show ?case by simp
next
  case (Suc m)
  then obtain f fs' where fs: "fs = f # fs'"
    by (cases fs) auto
  with Suc.prems have ne: "fs' \<noteq> []" and len: "m < length fs'"
    by auto
  show ?case
  proof (cases "m = 0")
    case True
    with fs ne show ?thesis by (simp add: join_Cons)
  next
    case False
    with Suc.IH [of fs'] len
    have "join fs' sep = join (take m fs') sep @ sep @ join (drop m fs') sep" by simp
    moreover from False ne have "take m fs' \<noteq> []" by (cases fs'; cases m) auto
    ultimately show ?thesis using fs ne by (simp add: join_Cons)
  qed
qed


lemma ascii_bytes_of: "ascii (bytes_of s) = s"
proof -
  have "char_of (unat (of_nat (of_char c) :: 8 word)) = c" for c :: char
  proof -
    have "(of_char c :: nat) < 256" by simp
    then have "unat (of_nat (of_char c) :: 8 word) = of_char c"
      by (simp add: unat_of_nat)
    then show ?thesis by simp
  qed
  then show ?thesis by (simp add: ascii_def bytes_of_def comp_def)
qed

section \<open>The property assignments of an SSA or ASS cue\<close>

lemma assign_keys_from_1:
  "assign_keys 1 vals [] =
     [(''layer'', elem_at vals 1), (''style'', elem_at vals 2), (''name'', elem_at vals 3),
      (''marginL'', elem_at vals 4), (''marginR'', elem_at vals 5),
      (''marginV'', elem_at vals 6), (''effect'', elem_at vals 7)]"
  by (simp add: assign_keys.simps SSA_KEYS_def eval_nat_numeral)

lemma assign_keys_from_2:
  "assign_keys 2 vals [] =
     [(''style'', elem_at vals 2), (''name'', elem_at vals 3),
      (''marginL'', elem_at vals 4), (''marginR'', elem_at vals 5),
      (''marginV'', elem_at vals 6), (''effect'', elem_at vals 7)]"
  by (simp add: assign_keys.simps SSA_KEYS_def eval_nat_numeral)

lemma keys_upt_1:
  "assign_keys 1 vals [] = map (\<lambda>i. (SSA_KEYS ! i, elem_at vals i)) [1..<8]"
  by (subst assign_keys_from_1) (simp add: SSA_KEYS_def upt_rec eval_nat_numeral)

lemma keys_upt_2:
  "assign_keys 2 vals [] = map (\<lambda>i. (SSA_KEYS ! i, elem_at vals i)) [2..<8]"
  by (subst assign_keys_from_2) (simp add: SSA_KEYS_def upt_rec eval_nat_numeral)

section \<open>Blocks on a registered track\<close>

lemma Map_get_has: "Map_get m k = Some v \<Longrightarrow> Map_has m k"
  by (simp add: Map_get_def Map_has_def)

lemma parse_registered_block:
  assumes "find_block Children = Some (Block trackno v payload)"
    and "Map_get (subtitleTracks p) (Some trackno) = Some trk"
    and "(if compressed trk then inflateSync payload else Some payload) = Some raw"
  shows "parseEbmlSubtitles inflateSync toString p (Master BlockGroup Children) =
           Inr (p\<lparr>emitted := emitted p @
             [SubtitleEvent
                (make_subtitle (type trk) (toString raw)
                   (block_time v (currentClusterTimecode p) (timecodeScale p))
                   (block_duration (getData_uint Children BlockDuration) (timecodeScale p)))
                trackno]\<rparr>)"
  using assms Map_get_has [OF assms(2)] by (simp split: if_splits)



section \<open>Timestamp rendering on the documented literals\<close>

text \<open>
  Claim C3. The renderer is specified to print \<open>hh:mm:ss\<close>, a separator and the
  fraction, with the hours padded to two digits outside ASS style, so that
  107250 ms is \<open>00:01:47,250\<close> with a comma and \<open>00:01:47.250\<close> without. The code
  computes the padding of the hours and never appends the hours themselves outside ASS
  style: on 107250 ms it prints \<open>0:01:47,250\<close> and \<open>0:01:47.250\<close>, and with ten hours
  or more nothing at all stands before the first colon. In ASS style the result is the
  specified \<open>0:01:47.25\<close>.
\<close>

theorem toTimeString_omits_hours:
  "toTimeString (Num 107250) False True = ''0:01:47,250''
   \<and> toTimeString (Num 107250) False False = ''0:01:47.250''
   \<and> toTimeString (Num 107250) True False = ''0:01:47.25''
   \<and> toTimeString (Num 36000000) False True = '':00:00,000''"
  by code_simp

section \<open>Cues of SSA and ASS tracks\<close>

text \<open>
  Claim C1. A block on a registered track of type \<open>ssa\<close> or \<open>ass\<close>, whose payload
  decompresses where the track is compressed, emits one cue. With the decoded payload
  split on the comma, the cue has exactly the properties named by \<open>SSA_KEYS\<close> at the
  indices from 2 (type \<open>ssa\<close>) or from 1 (type \<open>ass\<close>) to 7, each holding the raw field
  at its index, and its text is the raw fields from index 8 on, rejoined with commas.
\<close>

theorem ssa_fields_assigned:
  assumes "find_block Children = Some (Block trackno v payload)"
    and "Map_get (subtitleTracks p) (Some trackno) = Some trk"
    and "type trk = ''ssa'' \<or> type trk = ''ass''"
    and "(if compressed trk then inflateSync payload else Some payload) = Some raw"
  shows "\<exists>subtitle.
           parseEbmlSubtitles inflateSync toString p (Master BlockGroup Children) =
             Inr (p\<lparr>emitted := emitted p @ [SubtitleEvent subtitle trackno]\<rparr>)
           \<and> props subtitle =
               map (\<lambda>i. (SSA_KEYS ! i, elem_at (split (toString raw) CHR '','') i))
                 [(if type trk = ''ssa'' then 2 else 1)..<8]
           \<and> text' subtitle = join (slice (split (toString raw) CHR '','') 8) '',''"
proof -
  let ?vals = "split (toString raw) CHR '',''"
  let ?sub = "make_subtitle (type trk) (toString raw)
                (block_time v (currentClusterTimecode p) (timecodeScale p))
                (block_duration (getData_uint Children BlockDuration) (timecodeScale p))"
  have run: "parseEbmlSubtitles inflateSync toString p (Master BlockGroup Children) =
               Inr (p\<lparr>emitted := emitted p @ [SubtitleEvent ?sub trackno]\<rparr>)"
    using assms(1,2,4) by (rule parse_registered_block)
  from assms(3) have ssa: "type trk \<in> set SSA_TYPES"
    by (auto simp: SSA_TYPES_def)
  have "props ?sub = assign_keys (if type trk = ''ssa'' then 2 else 1) ?vals []"
    using ssa by (simp add: make_subtitle_def Let_def)
  also have "\<dots> = map (\<lambda>i. (SSA_KEYS ! i, elem_at ?vals i))
                      [(if type trk = ''ssa'' then 2 else 1)..<8]"
  proof (cases "type trk = ''ssa''")
    case True
    then show ?thesis using keys_upt_2 [of ?vals] by simp
  next
    case False
    then show ?thesis using keys_upt_1 [of ?vals] by simp
  qed
  finally have fields: "props ?sub = map (\<lambda>i. (SSA_KEYS ! i, elem_at ?vals i))
                      [(if type trk = ''ssa'' then 2 else 1)..<8]" .
  have rest: "text' ?sub = join (slice ?vals 8) '',''"
    using ssa by (simp add: make_subtitle_def Let_def)
  from run fields rest show ?thesis by blast
qed

theorem ssa_fields_assigned_witness:
  "\<exists>subtitle.
     parseEbmlSubtitles Some ascii ass_parser
        (Master BlockGroup [UInt BlockDuration 1970, Block 4 250 dialogue_payload]) =
       Inr (ass_parser\<lparr>emitted := emitted ass_parser @ [SubtitleEvent subtitle 4]\<rparr>)
     \<and> Map_get (props subtitle) ''layer'' = Some (Some ''1'')
     \<and> Map_get (props subtitle) ''style'' = Some (Some ''Default'')
     \<and> Map_get (props subtitle) ''readOrder'' = None
     \<and> text' subtitle = ''Hello, world''"
proof -
  have blk: "find_block [UInt BlockDuration 1970, Block 4 250 dialogue_payload] =
               Some (Block 4 250 dialogue_payload)"
    by (simp add: find_block_def)
  have reg: "Map_get (subtitleTracks ass_parser) (Some 4) = Some ass_track"
    by (simp add: Map_get_def ass_parser_def)
  have ty: "type ass_track = ''ssa'' \<or> type ass_track = ''ass''"
    by (simp add: ass_track_def)
  have raw: "(if compressed ass_track then Some dialogue_payload else Some dialogue_payload) =
               Some dialogue_payload"
    by simp
  have decoded: "ascii dialogue_payload = ''0,1,Default,,0,0,0,,Hello, world''"
    by (simp add: dialogue_payload_def ascii_bytes_of)
  have ty': "type ass_track \<noteq> ''ssa''"
    by (simp add: ass_track_def)
  from ssa_fields_assigned [of _ _ _ _ _ _ Some _ ascii, OF blk reg ty raw]
  show ?thesis
    unfolding decoded
    by (auto simp: ty' SSA_KEYS_def Map_get_def elem_at_def slice_def upt_rec)
qed



section \<open>Time and duration of a cue\<close>



section \<open>Blocks on an unregistered track\<close>

lemma emitted_subtitle_registered:
  assumes "parseEbmlSubtitles inflateSync toString p chunk = Inr p'"
    and "emitted p' = emitted p @ evs"
    and "SubtitleEvent subtitle trackno \<in> set evs"
  shows "Map_has (subtitleTracks p) (Some trackno)"
proof (cases chunk)
  case (Master m Children)
  show ?thesis
  proof (cases m)
    case BlockGroup
    with Master assms show ?thesis
      by (auto simp: Let_def split: option.splits element.splits if_splits)
  qed (use Master assms in \<open>auto simp: Let_def\<close>)
next
  case (UInt u n)
  with assms show ?thesis by (cases u) auto
qed (use assms in auto)

text \<open>
  Claim C7. A BlockGroup whose block names a track number that is not in the registry
  leaves the whole state as it is: no event is emitted, and the registry, the scale and
  the cluster timecode are unchanged. And whatever element is handled, a subtitle event
  it emits carries a track number that was in the registry before.
\<close>

theorem unregistered_block_dropped:
  "(find_block Children = Some (Block trackno v payload)
      \<and> \<not> Map_has (subtitleTracks p) (Some trackno)
    \<longrightarrow> parseEbmlSubtitles inflateSync toString p (Master BlockGroup Children) = Inr p)
   \<and> (parseEbmlSubtitles inflateSync toString p chunk = Inr p'
      \<and> emitted p' = emitted p @ evs \<and> SubtitleEvent subtitle trackno' \<in> set evs
    \<longrightarrow> Map_has (subtitleTracks p) (Some trackno'))"
  using emitted_subtitle_registered [of inflateSync toString p chunk p' evs subtitle trackno']
  by auto

theorem unregistered_block_dropped_witness:
  "parseEbmlSubtitles Some ascii ass_parser
     (Master BlockGroup [UInt BlockDuration 1970, Block 5 250 dialogue_payload]) = Inr ass_parser
   \<and> Map_has (subtitleTracks ass_parser) (Some 4)"
proof -
  have blk: "find_block [UInt BlockDuration 1970, Block 5 250 dialogue_payload] =
               Some (Block 5 250 dialogue_payload)"
    by (simp add: find_block_def)
  have unreg: "\<not> Map_has (subtitleTracks ass_parser) (Some 5)"
    by (simp add: Map_has_def ass_parser_def)
  have run: "parseEbmlSubtitles Some ascii ass_parser (Master BlockGroup [Block 4 250 dialogue_payload]) =
      Inr (ass_parser\<lparr>emitted := emitted ass_parser @
         [SubtitleEvent (make_subtitle ''ass'' (ascii dialogue_payload) (Num 107250) NaN) 4]\<rparr>)"
    by (simp add: find_block_def Map_has_def Map_get_def ass_parser_def ass_track_def
        block_time_def block_duration_def getData_uint_def)
  have em: "emitted (ass_parser\<lparr>emitted := emitted ass_parser @
         [SubtitleEvent (make_subtitle ''ass'' (ascii dialogue_payload) (Num 107250) NaN) 4]\<rparr>) =
       emitted ass_parser @ [SubtitleEvent (make_subtitle ''ass'' (ascii dialogue_payload) (Num 107250) NaN) 4]"
    by simp
  from unregistered_block_dropped
         [of "[UInt BlockDuration 1970, Block 5 250 dialogue_payload]" 5 250 dialogue_payload
             ass_parser Some ascii]
       blk unreg
  have "parseEbmlSubtitles Some ascii ass_parser
     (Master BlockGroup [UInt BlockDuration 1970, Block 5 250 dialogue_payload]) = Inr ass_parser"
    by blast
  moreover
  from unregistered_block_dropped
         [of "[]" 0 0 "[]" ass_parser Some ascii "Master BlockGroup [Block 4 250 dialogue_payload]"
             "ass_parser\<lparr>emitted := emitted ass_parser @
               [SubtitleEvent (make_subtitle ''ass'' (ascii dialogue_payload) (Num 107250) NaN) 4]\<rparr>"
             "[SubtitleEvent (make_subtitle ''ass'' (ascii dialogue_payload) (Num 107250) NaN) 4]"
             "make_subtitle ''ass'' (ascii dialogue_payload) (Num 107250) NaN" 4]
       run em
  have "Map_has (subtitleTracks ass_parser) (Some 4)"
    by simp
  ultimately show ?thesis by simp
qed

section \<open>Acceptance of track entries\<close>

lemma Map_get_Map_set: "Map_get (Map_set m k v) k = Some v"
  by (induction m) (auto simp: Map_get_def)

lemma startsWith_S_TEXT: "startsWith s ''S_TEXT'' = (take 6 s = ''S_TEXT'')"
proof -
  have "length ''S_TEXT'' = 6" by simp
  then show ?thesis unfolding startsWith_def by (simp only:)
qed

text \<open>
  Claim C5, as amended. An entry with track type \<open>0x11\<close> and a codec identifier is
  accepted into the registry iff the identifier starts with the six characters
  \<open>S_TEXT\<close>, compared as they are; the test looks neither at the case of the prefix nor
  at the seventh character. The recorded type is the identifier from index 7 on, in
  lower case. An entry that is not accepted leaves the registry as it is.
\<close>

theorem codec_prefix_decides:
  assumes "getData_uint entry TrackType = Some 0x11"
    and "getData_string entry CodecID = Some codecID"
  shows "if take 6 codecID = ''S_TEXT''
         then \<exists>trk. Map_get (register_entry toString entry tracks) (getData_uint entry TrackNumber)
                       = Some trk
                \<and> type trk = toLowerCase (drop 7 codecID)
         else register_entry toString entry tracks = tracks"
proof (cases "take 6 codecID = ''S_TEXT''")
  case True
  then have "codecID \<noteq> []" by auto
  with True assms show ?thesis
    by (simp add: register_entry_def startsWith_S_TEXT substring_def Let_def Map_get_Map_set)
next
  case False
  with assms show ?thesis
    by (auto simp: register_entry_def startsWith_S_TEXT Let_def)
qed

theorem codec_prefix_decides_witness:
  "(\<exists>trk. Map_get (register_entry ascii
              [UInt TrackNumber 3, UInt TrackType 0x11, String CodecID ''S_TEXT/ASS''] [])
              (Some 3) = Some trk \<and> type trk = ''ass'')
   \<and> (\<exists>trk. Map_get (register_entry ascii
              [UInt TrackNumber 3, UInt TrackType 0x11, String CodecID ''S_TEXT/WebVTT''] [])
              (Some 3) = Some trk \<and> type trk = ''webvtt'')
   \<and> (\<exists>trk. Map_get (register_entry ascii
              [UInt TrackNumber 3, UInt TrackType 0x11, String CodecID ''S_TEXT/UTF8''] [])
              (Some 3) = Some trk \<and> type trk = ''utf8'')
   \<and> register_entry ascii
         [UInt TrackNumber 3, UInt TrackType 0x11, String CodecID ''V_MPEG4/ISO/AVC''] [] = []"
proof -
  have ty: "getData_uint [UInt TrackNumber 3, UInt TrackType 0x11, String CodecID c] TrackType
              = Some 0x11" for c
    by (simp add: getData_uint_def)
  have no: "getData_uint [UInt TrackNumber 3, UInt TrackType 0x11, String CodecID c] TrackNumber
              = Some 3" for c
    by (simp add: getData_uint_def)
  have codec: "getData_string [UInt TrackNumber 3, UInt TrackType 0x11, String CodecID c] CodecID
              = Some c" for c
    by (simp add: getData_string_def)
  have l1: "toLowerCase (drop 7 ''S_TEXT/ASS'') = ''ass''" by code_simp
  have l2: "toLowerCase (drop 7 ''S_TEXT/WebVTT'') = ''webvtt''" by code_simp
  have l3: "toLowerCase (drop 7 ''S_TEXT/UTF8'') = ''utf8''" by code_simp
  from codec_prefix_decides [OF ty codec, of "''S_TEXT/ASS''" ascii "[]"]
  have 1: "\<exists>trk. Map_get (register_entry ascii
              [UInt TrackNumber 3, UInt TrackType 0x11, String CodecID ''S_TEXT/ASS''] [])
              (Some 3) = Some trk \<and> type trk = ''ass''"
    unfolding no l1 by simp
  from codec_prefix_decides [OF ty codec, of "''S_TEXT/WebVTT''" ascii "[]"]
  have 2: "\<exists>trk. Map_get (register_entry ascii
              [UInt TrackNumber 3, UInt TrackType 0x11, String CodecID ''S_TEXT/WebVTT''] [])
              (Some 3) = Some trk \<and> type trk = ''webvtt''"
    unfolding no l2 by simp
  from codec_prefix_decides [OF ty codec, of "''S_TEXT/UTF8''" ascii "[]"]
  have 3: "\<exists>trk. Map_get (register_entry ascii
              [UInt TrackNumber 3, UInt TrackType 0x11, String CodecID ''S_TEXT/UTF8''] [])
              (Some 3) = Some trk \<and> type trk = ''utf8''"
    unfolding no l3 by simp
  from codec_prefix_decides [OF ty codec, of "''V_MPEG4/ISO/AVC''" ascii "[]"]
  have 4: "register_entry ascii
         [UInt TrackNumber 3, UInt TrackType 0x11, String CodecID ''V_MPEG4/ISO/AVC''] [] = []"
    by simp
  from 1 2 3 4 show ?thesis by blast
qed

text \<open>
  The claim as it was stated fails in both directions: the identifier \<open>s_text/ass\<close>
  starts with \<open>S_TEXT/\<close> up to case and is rejected, and the identifier \<open>S_TEXT-ASS\<close>
  does not start with \<open>S_TEXT/\<close> and is accepted, with type \<open>ass\<close>.
\<close>

theorem prefix_case_counterexample:
  "toLowerCase (take 7 ''s_text/ass'') = toLowerCase ''S_TEXT/''
   \<and> parseEbmlSubtitles Some ascii new_parser
        (Master Tracks [Master TrackEntry [UInt TrackNumber 3, UInt TrackType 0x11,
                                           String CodecID ''s_text/ass''] ])
      = Inr (new_parser\<lparr>emitted := [TracksEvent [] ]\<rparr>)
   \<and> toLowerCase (take 7 ''S_TEXT-ASS'') \<noteq> toLowerCase ''S_TEXT/''
   \<and> parseEbmlSubtitles Some ascii new_parser
        (Master Tracks [Master TrackEntry [UInt TrackNumber 3, UInt TrackType 0x11,
                                           String CodecID ''S_TEXT-ASS''] ])
      = Inr (new_parser
          \<lparr>subtitleTracks :=
             [(Some 3, \<lparr>number = Some 3, language = None, type = ''ass'', name = None,
                        header = None, compressed = False\<rparr>)],
           emitted :=
             [TracksEvent [\<lparr>number = Some 3, language = None, type = ''ass'', name = None,
                            header = None, compressed = False\<rparr>] ]\<rparr>)"
  by code_simp

section \<open>What the listeners leave alone\<close>

lemma base_listener_frame:
  "decoder (fst (base_listener inflateSync toString s chunk)) = decoder s"
  "unstable (fst (base_listener inflateSync toString s chunk)) = unstable s"
  "ended (fst (base_listener inflateSync toString s chunk)) = ended s"
  "written (fst (base_listener inflateSync toString s chunk)) = written s"
  "warnings (fst (base_listener inflateSync toString s chunk)) = warnings s"
  by (simp_all add: base_listener_def split: sum.splits)

lemma stop_listener_frame:
  "base (fst (stop_listener s chunk)) = base s"
  "decoder (fst (stop_listener s chunk)) = decoder s"
  "unstable (fst (stop_listener s chunk)) = unstable s"
  "written (fst (stop_listener s chunk)) = written s"
  "warnings (fst (stop_listener s chunk)) = warnings s"
  by (simp_all add: stop_listener_def split: element.splits master_id.splits)

lemma stop_listener_ended: "ended s \<Longrightarrow> ended (fst (stop_listener s chunk))"
  by (simp add: stop_listener_def split: element.splits master_id.splits)

text \<open>A projection of the state that no listener of a list changes is unchanged by the
  delivery of any elements to them.\<close>

lemma emit_keeps:
  assumes "\<And>l s chunk. l \<in> set ls \<Longrightarrow> f (fst (l s chunk)) = f s"
  shows "f (fst (emit ls s chunk)) = f s"
  using assms
proof (induction ls arbitrary: s)
  case Nil
  then show ?case by simp
next
  case (Cons l ls)
  obtain s' err where l: "l s chunk = (s', err)" by (cases "l s chunk")
  from Cons.prems [of l s chunk] l have s': "f s' = f s" by simp
  show ?case
  proof (cases err)
    case None
    with l Cons.IH [of s'] Cons.prems s' show ?thesis by simp
  next
    case (Some e)
    with l s' show ?thesis by simp
  qed
qed

lemma deliver_keeps:
  assumes "\<And>l s chunk. l \<in> set ls \<Longrightarrow> f (fst (l s chunk)) = f s"
  shows "f (fst (deliver ls s elements)) = f s"
proof (induction elements arbitrary: s)
  case Nil
  then show ?case by simp
next
  case (Cons chunk rest)
  obtain s' err where e: "emit ls s chunk = (s', err)" by (cases "emit ls s chunk")
  from emit_keeps [of ls f s chunk] assms e have s': "f s' = f s" by simp
  show ?case
  proof (cases err)
    case None
    with e Cons.IH [of s'] s' show ?thesis by simp
  next
    case (Some x)
    with e s' show ?thesis by simp
  qed
qed

lemma decoderWrite_written:
  "written (decoderWrite inflateSync toString decode s chunk) = written s @ [chunk]"
proof -
  obtain elements thrown d where dec: "decode (decoder s) chunk = (elements, thrown, d)"
    by (cases "decode (decoder s) chunk") auto
  let ?s0 = "s\<lparr>decoder := d, written := written s @ [chunk]\<rparr>"
  obtain s' err where del: "deliver [base_listener inflateSync toString] ?s0 elements = (s', err)"
    by (cases "deliver [base_listener inflateSync toString] ?s0 elements")
  have "written (fst (deliver [base_listener inflateSync toString] ?s0 elements)) = written ?s0"
    by (rule deliver_keeps) (simp add: base_listener_frame)
  with del have "written s' = written ?s0" by simp
  then show ?thesis
    by (simp add: decoderWrite_def decoder_write_def dec del split: option.splits)
qed

lemma decoderWrite_unstable:
  "unstable (decoderWrite inflateSync toString decode s chunk) = unstable s"
proof -
  obtain elements thrown d where dec: "decode (decoder s) chunk = (elements, thrown, d)"
    by (cases "decode (decoder s) chunk") auto
  let ?s0 = "s\<lparr>decoder := d, written := written s @ [chunk]\<rparr>"
  obtain s' err where del: "deliver [base_listener inflateSync toString] ?s0 elements = (s', err)"
    by (cases "deliver [base_listener inflateSync toString] ?s0 elements")
  have "unstable (fst (deliver [base_listener inflateSync toString] ?s0 elements)) = unstable ?s0"
    by (rule deliver_keeps) (simp add: base_listener_frame)
  with del have "unstable s' = unstable ?s0" by simp
  then show ?thesis
    by (simp add: decoderWrite_def decoder_write_def dec del split: option.splits)
qed

section \<open>The scan for a cluster\<close>

lemma scan_first:
  assumes "i \<le> j" and "int j < int (length chunk) - 12" and "cluster_at chunk j"
    and "\<And>k. i \<le> k \<Longrightarrow> k < j \<Longrightarrow> \<not> cluster_at chunk k"
  shows "scan chunk i = Some j"
  using assms
proof (induction chunk i rule: scan.induct)
  case (1 chunk i)
  show ?case
  proof (cases "i = j")
    case True
    with "1.prems" show ?thesis by (simp add: scan.simps [of chunk j])
  next
    case False
    with "1.prems" have lt: "i < j" and no: "\<not> cluster_at chunk i"
      by auto
    with "1.prems" have "int i < int (length chunk) - 12" by simp
    moreover from this no lt "1.IH" "1.prems" have "scan chunk (Suc i) = Some j"
      by simp
    ultimately show ?thesis using no by (simp add: scan.simps [of chunk i])
  qed
qed

lemma scan_none:
  assumes "\<And>k. i \<le> k \<Longrightarrow> int k < int (length chunk) - 12 \<Longrightarrow> \<not> cluster_at chunk k"
  shows "scan chunk i = None"
  using assms
proof (induction chunk i rule: scan.induct)
  case (1 chunk i)
  show ?case
  proof (cases "int i < int (length chunk) - 12")
    case True
    with "1.prems" [of i] have no: "\<not> cluster_at chunk i" by simp
    with True "1.IH" "1.prems" have "scan chunk (Suc i) = None" by simp
    with True no show ?thesis by (simp add: scan.simps [of chunk i])
  next
    case False
    then show ?thesis by (simp add: scan.simps [of chunk i])
  qed
qed


section \<open>Resynchronisation\<close>

text \<open>
  Claim C6, as amended. While the stream is unstable: if some offset below the length
  of the chunk minus 12 passes the test of the scanner (the signature \<open>1F 43 B6 75\<close>, and
  the byte \<open>E7\<close> behind a size tag of the length the byte after the signature encodes),
  then at the least such offset the stream becomes stable and hands exactly the chunk
  from that offset on to the decoder; if no offset below the length minus 12 passes the
  test, the stream stays as it is, unstable, and nothing is handed to the decoder.
\<close>

theorem resync_at_first_cluster:
  assumes "unstable s"
  shows "(int i < int (length chunk) - 12 \<and> cluster_at chunk i
            \<and> (\<forall>k. k < i \<longrightarrow> \<not> cluster_at chunk k)
          \<longrightarrow> ondata inflateSync toString decode s chunk =
                decoderWrite inflateSync toString decode (s\<lparr>unstable := False\<rparr>) (drop i chunk)
              \<and> \<not> unstable (ondata inflateSync toString decode s chunk)
              \<and> written (ondata inflateSync toString decode s chunk) = written s @ [drop i chunk])
       \<and> ((\<forall>k. int k < int (length chunk) - 12 \<longrightarrow> \<not> cluster_at chunk k)
          \<longrightarrow> ondata inflateSync toString decode s chunk = s)"
proof (intro conjI impI)
  assume "\<forall>k. int k < int (length chunk) - 12 \<longrightarrow> \<not> cluster_at chunk k"
  then have "scan chunk 0 = None" by (intro scan_none) simp
  with assms show "ondata inflateSync toString decode s chunk = s"
    by (simp add: ondata_def)
next
  assume m: "int i < int (length chunk) - 12 \<and> cluster_at chunk i
               \<and> (\<forall>k. k < i \<longrightarrow> \<not> cluster_at chunk k)"
  then have "scan chunk 0 = Some i" by (intro scan_first) auto
  with assms show eq: "ondata inflateSync toString decode s chunk =
      decoderWrite inflateSync toString decode (s\<lparr>unstable := False\<rparr>) (drop i chunk)"
    by (simp add: ondata_def slice_def)
  show "\<not> unstable (ondata inflateSync toString decode s chunk)"
    unfolding eq by (simp add: decoderWrite_unstable)
  show "written (ondata inflateSync toString decode s chunk) = written s @ [drop i chunk]"
    unfolding eq by (simp add: decoderWrite_written)
qed

theorem resync_at_first_cluster_witness:
  "\<not> unstable (ondata Some ascii no_elements resumed_stream early_cluster)
   \<and> written (ondata Some ascii no_elements resumed_stream early_cluster) =
       [ [0x1f, 0x43, 0xb6, 0x75, 0x81, 0xe7, 0x81, 0x00, 0xa0, 0x81, 0x00, 0x00, 0x00, 0x00, 0x00] ]
   \<and> ondata Some ascii no_elements resumed_stream no_cluster = resumed_stream"
proof -
  have u: "unstable resumed_stream"
    by (simp add: resumed_stream_def SubtitleStream_def)
  have w: "written resumed_stream = []"
    by (simp add: resumed_stream_def SubtitleStream_def new_instance_def)
  have len: "int 2 < int (length early_cluster) - 12"
    by (simp add: early_cluster_def)
  have at2: "cluster_at early_cluster 2" by code_simp
  have before: "\<forall>k. k < 2 \<longrightarrow> \<not> cluster_at early_cluster k"
  proof (intro allI impI)
    fix k :: nat assume "k < 2"
    then have "k = 0 \<or> k = 1" by auto
    moreover have "\<not> cluster_at early_cluster 0" by code_simp
    moreover have "\<not> cluster_at early_cluster 1" by code_simp
    ultimately show "\<not> cluster_at early_cluster k" by auto
  qed
  have none: "\<forall>k. int k < int (length no_cluster) - 12 \<longrightarrow> \<not> cluster_at no_cluster k"
  proof (intro allI impI)
    fix k :: nat assume "int k < int (length no_cluster) - 12"
    then have "k = 0 \<or> k = 1 \<or> k = 2 \<or> k = 3" by (auto simp: no_cluster_def)
    moreover have "\<not> cluster_at no_cluster 0" "\<not> cluster_at no_cluster 1"
      "\<not> cluster_at no_cluster 2" "\<not> cluster_at no_cluster 3" by code_simp+
    ultimately show "\<not> cluster_at no_cluster k" by auto
  qed
  have d: "drop 2 early_cluster =
      [0x1f, 0x43, 0xb6, 0x75, 0x81, 0xe7, 0x81, 0x00, 0xa0, 0x81, 0x00, 0x00, 0x00, 0x00, 0x00]"
    by (simp add: early_cluster_def)
  from resync_at_first_cluster [OF u, of 2 early_cluster Some ascii no_elements] len at2 before
  have "\<not> unstable (ondata Some ascii no_elements resumed_stream early_cluster)
        \<and> written (ondata Some ascii no_elements resumed_stream early_cluster) =
            written resumed_stream @ [drop 2 early_cluster]"
    by blast
  moreover
  from resync_at_first_cluster [OF u, of 0 no_cluster Some ascii no_elements] none
  have "ondata Some ascii no_elements resumed_stream no_cluster = resumed_stream"
    by blast
  ultimately show ?thesis by (simp add: w d)
qed

text \<open>
  The claim as it was stated fails where the signature stands in the last twelve bytes
  of a chunk: in \<open>late_cluster\<close> the signature is at offset 4, the size tag has length 1
  and the byte behind it is \<open>E7\<close>, all inside the chunk; the loop ends before offset 4,
  the stream stays unstable and the chunk is dropped.
\<close>

theorem cluster_near_end_counterexample:
  "cluster_at late_cluster 4
   \<and> unstable (ondata Some ascii no_elements resumed_stream late_cluster)
   \<and> written (ondata Some ascii no_elements resumed_stream late_cluster) = []"
proof -
  have at4: "cluster_at late_cluster 4" by code_simp
  have none: "scan late_cluster 0 = None" by code_simp
  have u: "unstable resumed_stream"
    by (simp add: resumed_stream_def SubtitleStream_def)
  have w: "written resumed_stream = []"
    by (simp add: resumed_stream_def SubtitleStream_def new_instance_def)
  from u none have "ondata Some ascii no_elements resumed_stream late_cluster = resumed_stream"
    by (simp add: ondata_def)
  with at4 u w show ?thesis by simp
qed

section \<open>A stream attached to a prior instance\<close>

lemma parse_keeps_cluster:
  assumes "parseEbmlSubtitles inflateSync toString p chunk = Inr p'"
    and "\<And>n. chunk \<noteq> UInt Timecode n"
  shows "currentClusterTimecode p' = currentClusterTimecode p"
proof (cases chunk)
  case (Master m Children)
  show ?thesis
  proof (cases m)
    case BlockGroup
    with Master assms(1) show ?thesis
      by (auto simp: Let_def split: option.splits element.splits if_splits)
  qed (use Master assms(1) in \<open>auto simp: Let_def\<close>)
next
  case (UInt u n)
  with assms show ?thesis by (cases u) auto
qed (use assms(1) in auto)

text \<open>
  Claim C8. A \<open>SubtitleStream\<close> constructed from a prior instance has the registry and
  the timecode scale of that instance, its cluster timecode is the initial \<open>null\<close>
  whatever the prior instance had, and it is unstable. The cluster timecode then stays
  \<open>null\<close> under every element that is handled without an exception, except a Timecode
  element, which sets it.
\<close>

theorem stream_from_prior:
  assumes "SubtitleStream d (Some prev) = (s, prev')"
  shows "subtitleTracks (base s) = subtitleTracks (base prev)
         \<and> timecodeScale (base s) = timecodeScale (base prev)
         \<and> currentClusterTimecode (base s) = None
         \<and> unstable s
         \<and> (parseEbmlSubtitles inflateSync toString (base s) chunk = Inr p'
              \<and> (\<forall>n. chunk \<noteq> UInt Timecode n)
            \<longrightarrow> currentClusterTimecode p' = None)
         \<and> parseEbmlSubtitles inflateSync toString (base s) (UInt Timecode n) =
             Inr ((base s)\<lparr>currentClusterTimecode := Some n\<rparr>)"
proof -
  from assms have s: "s = (new_instance d)
      \<lparr>base := new_parser\<lparr>subtitleTracks := subtitleTracks (base prev),
                           timecodeScale := timecodeScale (base prev)\<rparr>,
       unstable := True\<rparr>"
    by (simp add: SubtitleStream_def)
  then have none: "currentClusterTimecode (base s) = None"
    by (simp add: new_parser_def)
  have "currentClusterTimecode p' = None"
    if "parseEbmlSubtitles inflateSync toString (base s) chunk = Inr p'"
      and "\<forall>n. chunk \<noteq> UInt Timecode n"
    using parse_keeps_cluster [OF that(1)] that(2) none by simp
  with s none show ?thesis by simp
qed

theorem stream_from_prior_witness:
  "currentClusterTimecode (base prior_stream) = Some 107000
   \<and> subtitleTracks (base resumed_stream) = [(Some 4, ass_track)]
   \<and> timecodeScale (base resumed_stream) = 1
   \<and> currentClusterTimecode (base resumed_stream) = None
   \<and> unstable resumed_stream
   \<and> parseEbmlSubtitles Some ascii (base resumed_stream) (UInt Timecode 5000) =
       Inr ((base resumed_stream)\<lparr>currentClusterTimecode := Some 5000\<rparr>)"
proof -
  have c: "SubtitleStream () (Some prior_stream) =
             (resumed_stream, snd (SubtitleStream () (Some prior_stream)))"
    by (simp add: resumed_stream_def)
  have t: "TimecodeScale \<noteq> Timecode" by simp
  from stream_from_prior [OF c, of Some ascii "UInt TimecodeScale 1000000" "base resumed_stream" 5000]
  show ?thesis
    by (simp add: prior_stream_def ass_parser_def)
qed

section \<open>The one-shot parser without subtitle tracks\<close>

lemma base_listener_Tracks:
  "\<exists>s'. base_listener inflateSync toString s (Master Tracks Children) = (s', None)
        \<and> ended s' = ended s"
  by (simp add: base_listener_def Let_def)

lemma emit_ended:
  assumes "ended s"
  shows "ended (fst (emit (SubtitleParser_listeners inflateSync toString) s chunk))"
proof -
  obtain s1 e1 where b: "base_listener inflateSync toString s chunk = (s1, e1)"
    by (cases "base_listener inflateSync toString s chunk")
  with base_listener_frame(3) [of inflateSync toString s chunk] assms have s1: "ended s1"
    by simp
  obtain s2 e2 where st: "stop_listener s1 chunk = (s2, e2)"
    by (cases "stop_listener s1 chunk")
  with stop_listener_ended [OF s1, of chunk] have "ended s2" by simp
  with b st s1 show ?thesis
    by (cases e1; cases e2) (simp_all add: SubtitleParser_listeners_def)
qed

lemma deliver_ended:
  "ended s \<Longrightarrow> ended (fst (deliver (SubtitleParser_listeners inflateSync toString) s elements))"
proof (induction elements arbitrary: s)
  case Nil
  then show ?case by simp
next
  case (Cons chunk rest)
  obtain s' err where e: "emit (SubtitleParser_listeners inflateSync toString) s chunk = (s', err)"
    by (cases "emit (SubtitleParser_listeners inflateSync toString) s chunk")
  with emit_ended [OF Cons.prems, of inflateSync toString chunk] have "ended s'" by simp
  with e Cons.IH [of s'] show ?case by (cases err) simp_all
qed

lemma write_all_ended:
  "ended s \<Longrightarrow> write_all inflateSync toString decode s chunks = s"
  by (induction chunks) (simp_all add: Writable_write_def)

text \<open>
  Claim C9, as amended. When the one-shot parser has handled a Tracks element and the
  registry is empty afterwards, it has ended its own stream. The elements the decoder
  emits after it for the same chunk are still handed to the listeners, whatever they
  are. Every chunk written after that is refused: it does not reach the decoder and the
  state, with the events emitted so far, stays as it is.
\<close>

theorem end_refuses_later_chunks:
  assumes "emit (SubtitleParser_listeners inflateSync toString) s (Master Tracks Children) =
             (s1, None)"
    and "Map_size (subtitleTracks (base s1)) = 0"
    and "deliver (SubtitleParser_listeners inflateSync toString) s1 rest = (s2, err)"
  shows "ended s1 \<and> ended s2
         \<and> Writable_write inflateSync toString decode s2 chunk = (s2, Some WriteAfterEnd)
         \<and> write_all inflateSync toString decode s2 chunks = s2"
proof -
  obtain s' where b: "base_listener inflateSync toString s (Master Tracks Children) = (s', None)"
    using base_listener_Tracks [of inflateSync toString s Children] by blast
  with assms(1) have st: "stop_listener s' (Master Tracks Children) = (s1, None)"
    by (simp add: SubtitleParser_listeners_def split: prod.splits option.splits)
  then have "base s1 = base s'"
    using stop_listener_frame(1) [of s' "Master Tracks Children"] by simp
  with assms(2) st have s1: "ended s1"
    by (auto simp: stop_listener_def)
  with assms(3) deliver_ended [OF s1, of inflateSync toString rest] have s2: "ended s2"
    by simp
  from s1 s2 write_all_ended [OF s2] show ?thesis
    by (simp add: Writable_write_def)
qed

theorem end_refuses_later_chunks_witness:
  "ended (fst (Writable_write Some ascii tracks_then_file (new_instance ()) [0x1a]))
   \<and> write_all Some ascii tracks_then_file
        (fst (Writable_write Some ascii tracks_then_file (new_instance ()) [0x1a]))
        [ [0x45], [0xdf] ]
      = fst (Writable_write Some ascii tracks_then_file (new_instance ()) [0x1a])"
proof -
  let ?ls = "SubtitleParser_listeners Some ascii :: unit listener list"
  let ?s0 = "(new_instance ())\<lparr>decoder := (), written := [ [0x1a] ]\<rparr>"
  let ?s1 = "?s0\<lparr>base := new_parser\<lparr>emitted := [TracksEvent [] ]\<rparr>, ended := True\<rparr>"
  let ?rest = "[Master AttachedFile [String FileName ''Arial.ttf''] ]"
  have e: "emit ?ls ?s0 (Master Tracks []) = (?s1, None)"
    by (simp add: SubtitleParser_listeners_def base_listener_def stop_listener_def
        new_instance_def new_parser_def Map_size_def Map_values_def)
  have z: "Map_size (subtitleTracks (base ?s1)) = 0"
    by (simp add: Map_size_def new_parser_def)
  obtain s2 err where d: "deliver ?ls ?s1 ?rest = (s2, err)"
    by (cases "deliver ?ls ?s1 ?rest")
  have w: "Writable_write Some ascii tracks_then_file (new_instance ()) [0x1a] = (s2, err)"
    using e d
    by (simp add: Writable_write_def SubtitleParser_write_def decoder_write_def
        tracks_then_file_def new_instance_def split: option.splits)
  from end_refuses_later_chunks [OF e z d, of tracks_then_file _ "[ [0x45], [0xdf] ]"]
  show ?thesis unfolding w by simp
qed

text \<open>
  The claim as it was stated fails inside a chunk: when the decoder finds a Tracks
  element without subtitle entries and an attached file behind it in one chunk, the
  parser ends its stream at the first and still emits the file event for the second.
\<close>

theorem event_after_end_counterexample:
  "Writable_write Some ascii tracks_then_file (new_instance ()) [0x1a] =
     ((new_instance ())
        \<lparr>base := new_parser
           \<lparr>emitted := [TracksEvent [],
                         FileEvent \<lparr>filename = Some ''Arial.ttf'', mimetype = None,
                                    data = None\<rparr>]\<rparr>,
         ended := True, written := [ [0x1a] ]\<rparr>,
      None)
   \<and> fst (emit (SubtitleParser_listeners Some ascii)
            ((new_instance ())\<lparr>written := [ [0x1a] ]\<rparr>) (Master Tracks [])) =
       (new_instance ())\<lparr>base := new_parser\<lparr>emitted := [TracksEvent [] ]\<rparr>,
                          ended := True, written := [ [0x1a] ]\<rparr>"
  by (simp add: Writable_write_def SubtitleParser_write_def decoder_write_def
      tracks_then_file_def new_instance_def new_parser_def SubtitleParser_listeners_def
      base_listener_def stop_listener_def Map_size_def Map_values_def
      getData_string_def getData_binary_def)

section \<open>A stream without a prior instance\<close>

lemma ondata_all_stable:
  "\<not> unstable s \<Longrightarrow>
     \<not> unstable (ondata_all inflateSync toString decode s chunks)
     \<and> written (ondata_all inflateSync toString decode s chunks) = written s @ chunks"
proof (induction chunks arbitrary: s)
  case Nil
  then show ?case by simp
next
  case (Cons chunk chunks)
  let ?s = "ondata inflateSync toString decode s chunk"
  from Cons.prems have step: "?s = decoderWrite inflateSync toString decode s chunk"
    by (simp add: ondata_def)
  with Cons.prems have "\<not> unstable ?s" and "written ?s = written s @ [chunk]"
    by (simp_all add: decoderWrite_unstable decoderWrite_written)
  with Cons.IH [of ?s] show ?case by simp
qed

text \<open>
  Claim C10. A \<open>SubtitleStream\<close> constructed without a prior instance is not unstable,
  and stays so: after any sequence of chunks the chunks handed to the decoder are
  exactly the incoming chunks, whole and in order, so that none was scanned or dropped.
  Each chunk goes through \<open>decoderWrite\<close>, which returns normally in every case: where
  \<open>decoder.write\<close> throws, the exception ends there and a warning is printed.
\<close>

theorem fresh_stream_forwards_all:
  assumes "SubtitleStream d None = (s, prev')"
  shows "\<not> unstable s
         \<and> \<not> unstable (ondata_all inflateSync toString decode s chunks)
         \<and> written (ondata_all inflateSync toString decode s chunks) = chunks
         \<and> (\<not> unstable s' \<longrightarrow>
              ondata inflateSync toString decode s' chunk =
                decoderWrite inflateSync toString decode s' chunk)
         \<and> (decoder_write [base_listener inflateSync toString] decode s' chunk = (s'', Some err)
            \<longrightarrow> decoderWrite inflateSync toString decode s' chunk =
                  s''\<lparr>warnings := Suc (warnings s'')\<rparr>)"
proof -
  from assms have s: "s = new_instance d"
    by (simp add: SubtitleStream_def)
  then have u: "\<not> unstable s" and w: "written s = []"
    by (simp_all add: new_instance_def)
  from ondata_all_stable [OF u, of inflateSync toString decode chunks] u w
  show ?thesis
    by (simp add: ondata_def decoderWrite_def)
qed

theorem fresh_stream_forwards_all_witness:
  "\<not> unstable (ondata_all Some ascii failing_decoder (new_instance ()) [late_cluster, no_cluster])
   \<and> written (ondata_all Some ascii failing_decoder (new_instance ()) [late_cluster, no_cluster])
       = [late_cluster, no_cluster]
   \<and> decoderWrite Some ascii failing_decoder (new_instance ()) no_cluster =
       (new_instance ())\<lparr>written := [no_cluster], warnings := 1\<rparr>"
proof -
  have c: "SubtitleStream () None = (new_instance (), None)"
    by (simp add: SubtitleStream_def)
  have f: "decoder_write [base_listener Some ascii] failing_decoder (new_instance ()) no_cluster =
             ((new_instance ())\<lparr>written := [no_cluster]\<rparr>, Some DecodeError)"
    by (simp add: decoder_write_def failing_decoder_def new_instance_def)
  from fresh_stream_forwards_all
         [OF c, of Some ascii failing_decoder "[late_cluster, no_cluster]" "new_instance ()"
            no_cluster "(new_instance ())\<lparr>written := [no_cluster]\<rparr>" DecodeError]
       f
  show ?thesis by (simp add: new_instance_def)
qed

end
